theory Spec2Isabelle
  imports Complex_Main
begin

section \<open>Python values used by both programs\<close>

text \<open>
  Strings are byte strings (\<^typ>\<open>string\<close>); the programs only ever inspect ASCII
  characters of them (a dot, the letters of \<^verbatim>\<open>.pdf\<close>, digits, white space), so
  \<^verbatim>\<open>str.lower\<close>, \<^verbatim>\<open>\s\<close> and \<^verbatim>\<open>\d\<close> are modelled on ASCII.
\<close>

definition lower_char :: "char \<Rightarrow> char" where
  "lower_char c =
     (case map_of (zip ''ABCDEFGHIJKLMNOPQRSTUVWXYZ'' ''abcdefghijklmnopqrstuvwxyz'') c of
        Some l \<Rightarrow> l
      | None \<Rightarrow> c)"

definition lower :: "string \<Rightarrow> string" where
  "lower s = map lower_char s"

definition rfind :: "string \<Rightarrow> char \<Rightarrow> int" where
  "rfind s c =
     (if c \<in> set s
      then int (length s) - 1 - int (length (takeWhile (\<lambda>x. x \<noteq> c) (rev s)))
      else - 1)"

fun join_with :: "string \<Rightarrow> string list \<Rightarrow> string" where
  "join_with sep [] = []"
| "join_with sep [x] = x"
| "join_with sep (x # y # ys) = x @ sep @ join_with sep (y # ys)"

definition digit_char :: "nat \<Rightarrow> char" where
  "digit_char d = ''0123456789'' ! d"

fun str_nat :: "nat \<Rightarrow> string" where
  "str_nat n =
     (if n < 10 then [digit_char n] else str_nat (n div 10) @ [digit_char (n mod 10)])"

definition str_int :: "int \<Rightarrow> string" where
  "str_int i = (if i < 0 then CHR ''-'' # str_nat (nat (- i)) else str_nat (nat i))"

subsection \<open>pathlib paths and the file system\<close>

text \<open>
  A \<^verbatim>\<open>Path\<close> is its anchor (drive and root, empty for a relative path) and its
  components. Two paths name the same file exactly when they are equal: links,
  \<^verbatim>\<open>..\<close> and the working directory are not modelled, and neither are directories.
  The suffix of a path starts at the last dot of its name, unless that dot is the first
  or the last character of the name (pathlib up to Python 3.13).
\<close>

record path =
  anchor :: string
  parts :: "string list"

definition path_name :: "path \<Rightarrow> string" where
  "path_name p = (if parts p = [] then [] else last (parts p))"

definition path_suffix :: "path \<Rightarrow> string" where
  "path_suffix p =
     (let name = path_name p; i = rfind name (CHR ''.'')
      in if 0 < i \<and> i < int (length name) - 1 then drop (nat i) name else [])"

definition path_stem :: "path \<Rightarrow> string" where
  "path_stem p =
     (let name = path_name p; i = rfind name (CHR ''.'')
      in if 0 < i \<and> i < int (length name) - 1 then take (nat i) name else name)"

definition path_parent :: "path \<Rightarrow> path" where
  "path_parent p = p\<lparr>parts := butlast (parts p)\<rparr>"

text \<open>\<^verbatim>\<open>p / s\<close> for a string \<open>s\<close> that is one component (it holds no separator).\<close>

definition path_join :: "path \<Rightarrow> string \<Rightarrow> path" where
  "path_join p s = p\<lparr>parts := parts p @ [s]\<rparr>"

definition str_path :: "path \<Rightarrow> string" where
  "str_path p =
     (if anchor p = [] \<and> parts p = [] then ''.''
      else anchor p @ join_with ''/'' (parts p))"

datatype py_exn =
    FileNotFoundError
  | ZeroDivisionError
  | Exception string
  | ValueError string
  | InvalidLiteral string
  | NotEnoughValues nat
  | TooManyValues
  | SystemExit string
  | ArgparseError string
  | LibraryError string

text \<open>
  The effects a run has on its surroundings: each subprocess it starts, each file it
  opens through the PDF library, each file it opens or rewrites for writing.
\<close>

datatype event =
    Subprocess "string list"
  | PdfReaderOpen path
  | OpenWb path
  | WriteText path

record world =
  files :: "path \<rightharpoonup> string"
  log :: "event list"

definition path_exists :: "world \<Rightarrow> path \<Rightarrow> bool" where
  "path_exists w p = (files w p \<noteq> None)"

definition stat_size :: "world \<Rightarrow> path \<Rightarrow> py_exn + nat" where
  "stat_size w p = (case files w p of None \<Rightarrow> Inl FileNotFoundError | Some d \<Rightarrow> Inr (length d))"

definition read_text :: "world \<Rightarrow> path \<Rightarrow> py_exn + string" where
  "read_text w p = (case files w p of None \<Rightarrow> Inl FileNotFoundError | Some d \<Rightarrow> Inr d)"

section \<open>pdfo.py\<close>

subsection \<open>What the program calls but does not define\<close>

text \<open>
  \<^verbatim>\<open>subprocess.run\<close> either raises (the binary is missing) or gives the return code,
  the captured standard error and the file system the subprocess leaves behind.
  The PDF library is a set of operations on pages of an abstract type; each may raise.
  \<^verbatim>\<open>write\<close> gives the bytes that reached the file and the exception that stopped it,
  if one did.
\<close>

record 'page pdf_writer =
  pages :: "'page list"
  metadata :: "(string \<times> string) list"

record 'page env =
  subprocess_run :: "string list \<Rightarrow> (path \<rightharpoonup> string) \<Rightarrow> py_exn + (int \<times> string \<times> (path \<rightharpoonup> string))"
  PdfReader :: "string \<Rightarrow> py_exn + 'page list"
  compress_content_streams :: "'page \<Rightarrow> py_exn + 'page"
  compress_identical_objects :: "'page pdf_writer \<Rightarrow> py_exn + 'page pdf_writer"
  writer_write :: "'page pdf_writer \<Rightarrow> string \<times> py_exn option"

subsection \<open>compress\_with\_ghostscript\<close>

definition quality_settings :: "int \<rightharpoonup> string" where
  "quality_settings = [1 \<mapsto> ''printer'', 2 \<mapsto> ''ebook'', 3 \<mapsto> ''screen'', 4 \<mapsto> ''screen'']"

definition preset_of :: "int \<Rightarrow> string" where
  "preset_of quality = (case quality_settings quality of Some p \<Rightarrow> p | None \<Rightarrow> ''ebook'')"

definition resolution_flag :: "int \<Rightarrow> string" where
  "resolution_flag quality =
     (if quality \<ge> 3 then ''-dColorImageResolution=150'' else ''-dColorImageResolution=200'')"

definition gs_cmd :: "path \<Rightarrow> path \<Rightarrow> int \<Rightarrow> string list" where
  "gs_cmd input_path output_path quality =
     [''gs'',
      ''-sDEVICE=pdfwrite'',
      ''-dCompatibilityLevel=1.4'',
      ''-dPDFSETTINGS=/'' @ preset_of quality,
      ''-dNOPAUSE'',
      ''-dQUIET'',
      ''-dBATCH'',
      ''-dDetectDuplicateImages=true'',
      ''-dCompressFonts=true'',
      ''-dDownsampleColorImages=true'',
      ''-dDownsampleGrayImages=true'',
      ''-dDownsampleMonoImages=true'',
      resolution_flag quality,
      ''-sOutputFile='' @ str_path output_path,
      str_path input_path]"

definition stat_sizes :: "world \<Rightarrow> path \<Rightarrow> path \<Rightarrow> py_exn + (nat \<times> nat)" where
  "stat_sizes w input_path output_path =
     (case stat_size w input_path of
        Inl e \<Rightarrow> Inl e
      | Inr input_size \<Rightarrow>
          (case stat_size w output_path of
             Inl e \<Rightarrow> Inl e
           | Inr output_size \<Rightarrow> Inr (input_size, output_size)))"

definition compress_with_ghostscript ::
  "'page env \<Rightarrow> path \<Rightarrow> path \<Rightarrow> int \<Rightarrow> world \<Rightarrow> (py_exn + (nat \<times> nat)) \<times> world" where
  "compress_with_ghostscript env input_path output_path quality w =
     (let cmd = gs_cmd input_path output_path quality;
          w1 = w\<lparr>log := log w @ [Subprocess cmd]\<rparr>
      in case subprocess_run env cmd (files w) of
           Inl e \<Rightarrow> (Inl e, w1)
         | Inr (returncode, stderr_text, fs') \<Rightarrow>
             (let w2 = w1\<lparr>files := fs'\<rparr>
              in if returncode \<noteq> 0
                 then (Inl (Exception (''Ghostscript failed: '' @ stderr_text)), w2)
                 else (stat_sizes w2 input_path output_path, w2)))"

subsection \<open>compress\_with\_pypdf\<close>

fun compress_pages :: "('page \<Rightarrow> py_exn + 'page) \<Rightarrow> 'page list \<Rightarrow> py_exn + 'page list" where
  "compress_pages f [] = Inr []"
| "compress_pages f (p # ps) =
     (case f p of
        Inl e \<Rightarrow> Inl e
      | Inr p' \<Rightarrow>
          (case compress_pages f ps of
             Inl e \<Rightarrow> Inl e
           | Inr ps' \<Rightarrow> Inr (p' # ps')))"

definition add_page :: "'page \<Rightarrow> 'page pdf_writer \<Rightarrow> 'page pdf_writer" where
  "add_page p wr = wr\<lparr>pages := pages wr @ [p]\<rparr>"

definition add_metadata :: "(string \<times> string) list \<Rightarrow> 'page pdf_writer \<Rightarrow> 'page pdf_writer" where
  "add_metadata kv wr = wr\<lparr>metadata := metadata wr @ kv\<rparr>"

definition compress_with_pypdf ::
  "'page env \<Rightarrow> path \<Rightarrow> path \<Rightarrow> int \<Rightarrow> world \<Rightarrow> (py_exn + (nat \<times> nat)) \<times> world" where
  "compress_with_pypdf env input_path output_path quality w =
     (let w1 = w\<lparr>log := log w @ [PdfReaderOpen input_path]\<rparr>
      in case files w input_path of
           None \<Rightarrow> (Inl FileNotFoundError, w1)
         | Some data \<Rightarrow>
             (case PdfReader env data of
                Inl e \<Rightarrow> (Inl e, w1)
              | Inr reader_pages \<Rightarrow>
                  (let writer = fold add_page reader_pages \<lparr>pages = [], metadata = []\<rparr>
                   in case compress_pages (compress_content_streams env) (pages writer) of
                        Inl e \<Rightarrow> (Inl e, w1)
                      | Inr ps \<Rightarrow>
                          (case compress_identical_objects env
                                  (add_metadata [] (writer\<lparr>pages := ps\<rparr>)) of
                             Inl e \<Rightarrow> (Inl e, w1)
                           | Inr writer' \<Rightarrow>
                               (let w2 = w1\<lparr>files := (files w1)(output_path \<mapsto> []),
                                             log := log w1 @ [OpenWb output_path]\<rparr>;
                                    written = writer_write env writer';
                                    w3 = w2\<lparr>files := (files w2)(output_path \<mapsto> fst written)\<rparr>
                                in case snd written of
                                     Some e \<Rightarrow> (Inl e, w3)
                                   | None \<Rightarrow> (stat_sizes w3 input_path output_path, w3))))))"

subsection \<open>has\_ghostscript\<close>

definition has_ghostscript :: "'page env \<Rightarrow> world \<Rightarrow> bool \<times> world" where
  "has_ghostscript env w =
     (let w1 = w\<lparr>log := log w @ [Subprocess [''gs'', ''--version'']]\<rparr>
      in case subprocess_run env [''gs'', ''--version''] (files w) of
           Inl e \<Rightarrow> (False, w1)
         | Inr (returncode, stderr_text, fs') \<Rightarrow> (returncode = 0, w1\<lparr>files := fs'\<rparr>))"

subsection \<open>main\<close>

record cli_args =
  input_file :: path
  output_arg :: "path option"
  quality :: int
  force :: bool
  no_gs :: bool

text \<open>
  The lines \<^verbatim>\<open>click.echo\<close> prints, one constructor per call in the source, holding the
  values the line is formatted from (number formatting is not modelled). A
  \<^verbatim>\<open>Traceback\<close> is what the interpreter prints for an exception nothing caught.
\<close>

datatype out_line =
    Compressing string
  | Method_Ghostscript int
  | Method_pypdf
  | Before nat
  | Success
  | After nat
  | Saved real
  | File_line path

datatype err_line =
    Input_must_be_PDF
  | Output_exists path
  | Error_caught py_exn
  | Traceback py_exn

record result =
  exit_code :: int
  stdout :: "out_line list"
  stderr :: "err_line list"

definition resolve_output :: "cli_args \<Rightarrow> path" where
  "resolve_output a =
     (case output_arg a of
        None \<Rightarrow>
          path_join (path_parent (input_file a))
            (path_stem (input_file a) @ ''_compressed'' @ path_suffix (input_file a))
      | Some p \<Rightarrow> p)"

text \<open>
  The percentage is a Python float in the source; here it is the real number the
  expression denotes, so the rounding of the two float operations is not modelled.
  Python raises \<^verbatim>\<open>ZeroDivisionError\<close> when the divisor is zero.
\<close>

definition reduction :: "nat \<Rightarrow> nat \<Rightarrow> py_exn + real" where
  "reduction input_size output_size =
     (if input_size = 0 then Inl ZeroDivisionError
      else Inr (real_of_int (int input_size - int output_size) / real input_size * 100))"

definition main :: "'page env \<Rightarrow> cli_args \<Rightarrow> world \<Rightarrow> result \<times> world" where
  "main env a w =
     (if lower (path_suffix (input_file a)) \<noteq> ''.pdf''
      then (\<lparr>exit_code = 1, stdout = [], stderr = [Input_must_be_PDF]\<rparr>, w)
      else
        (let out = resolve_output a
         in if path_exists w out \<and> \<not> force a
            then (\<lparr>exit_code = 1, stdout = [], stderr = [Output_exists out]\<rparr>, w)
            else
              (let probe = has_ghostscript env w;
                   use_gs = (fst probe \<and> \<not> no_gs a);
                   w1 = snd probe;
                   lines1 = [Compressing (path_name (input_file a)),
                             if use_gs then Method_Ghostscript (quality a) else Method_pypdf]
               in case stat_size w1 (input_file a) of
                    Inl e \<Rightarrow> (\<lparr>exit_code = 1, stdout = lines1, stderr = [Traceback e]\<rparr>, w1)
                  | Inr input_size \<Rightarrow>
                      (let lines2 = lines1 @ [Before input_size];
                           run = (if use_gs
                                  then compress_with_ghostscript env (input_file a) out (quality a) w1
                                  else compress_with_pypdf env (input_file a) out (quality a) w1);
                           w2 = snd run
                       in case fst run of
                            Inl e \<Rightarrow>
                              (\<lparr>exit_code = 1, stdout = lines2, stderr = [Error_caught e]\<rparr>, w2)
                          | Inr (input_size_check, output_size) \<Rightarrow>
                              (case reduction input_size output_size of
                                 Inl e \<Rightarrow>
                                   (\<lparr>exit_code = 1, stdout = lines2, stderr = [Error_caught e]\<rparr>, w2)
                               | Inr r \<Rightarrow>
                                   (\<lparr>exit_code = 0,
                                     stdout = lines2 @ [Success, After output_size, Saved r, File_line out],
                                     stderr = []\<rparr>, w2))))))"

subsection \<open>Reading a run's log\<close>

text \<open>
  Which backend an effect belongs to: the compression command is the external tool,
  the probe \<^verbatim>\<open>gs --version\<close> is not; opening the input through the PDF library is the
  library fallback.
\<close>

datatype backend = External_Tool | Library_Fallback

fun backend_of :: "event \<Rightarrow> backend option" where
  "backend_of (Subprocess cmd) =
     (if cmd = [''gs'', ''--version''] then None else Some External_Tool)"
| "backend_of (PdfReaderOpen p) = Some Library_Fallback"
| "backend_of (OpenWb p) = None"
| "backend_of (WriteText p) = None"

definition backends_run :: "event list \<Rightarrow> backend list" where
  "backends_run evs = List.map_filter backend_of evs"

text \<open>A run is rejected when one of the two checks before the backend printed its error.\<close>

fun is_rejection :: "err_line \<Rightarrow> bool" where
  "is_rejection Input_must_be_PDF = True"
| "is_rejection (Output_exists p) = True"
| "is_rejection (Error_caught e) = False"
| "is_rejection (Traceback e) = False"

definition rejected :: "result \<Rightarrow> bool" where
  "rejected r = list_ex is_rejection (stderr r)"

subsection \<open>A concrete run\<close>

text \<open>
  An input \<^verbatim>\<open>docs/sample.PDF\<close>, and surroundings in which the external tool is
  installed or not; when it is, it writes the given bytes to the default output path.
  The library of this example keeps a document's bytes as its single page.
\<close>

definition sample_pdf :: path where
  "sample_pdf = \<lparr>anchor = [], parts = [''docs'', ''sample.PDF'']\<rparr>"

definition sample_out :: path where
  "sample_out = \<lparr>anchor = [], parts = [''docs'', ''sample_compressed.PDF'']\<rparr>"

definition notes_txt :: path where
  "notes_txt = \<lparr>anchor = [], parts = [''docs'', ''notes.txt'']\<rparr>"

definition example_env :: "bool \<Rightarrow> string \<Rightarrow> string env" where
  "example_env gs_installed produced =
     \<lparr>subprocess_run = (\<lambda>cmd fs.
          if \<not> gs_installed then Inl FileNotFoundError
          else if cmd = [''gs'', ''--version''] then Inr (0, [], fs)
          else Inr (0, [], fs(sample_out \<mapsto> produced))),
      PdfReader = (\<lambda>data. Inr [data]),
      compress_content_streams = (\<lambda>p. Inr p),
      compress_identical_objects = (\<lambda>wr. Inr wr),
      writer_write = (\<lambda>wr. (concat (pages wr), None))\<rparr>"

definition example_args :: cli_args where
  "example_args =
     \<lparr>input_file = sample_pdf, output_arg = None, quality = 2, force = False, no_gs = False\<rparr>"

definition example_world :: "string \<Rightarrow> world" where
  "example_world content = \<lparr>files = [sample_pdf \<mapsto> content], log = []\<rparr>"

section \<open>scripts/bump\_version.py\<close>

subsection \<open>Characters, \<^verbatim>\<open>int\<close> and \<^verbatim>\<open>str.split\<close>\<close>

text \<open>
  White space is what \<^verbatim>\<open>str.isspace\<close> holds of an ASCII character, digits are the ASCII
  digits.
\<close>

definition dquote :: char where
  "dquote = CHR 0x22"

definition newline :: char where
  "newline = CHR 0x0A"

definition is_space :: "char \<Rightarrow> bool" where
  "is_space c =
     (c \<in> set [CHR 0x09, CHR 0x0A, CHR 0x0B, CHR 0x0C, CHR 0x0D,
                CHR 0x1C, CHR 0x1D, CHR 0x1E, CHR 0x1F, CHR 0x20])"

definition is_digit :: "char \<Rightarrow> bool" where
  "is_digit c = (c \<in> set ''0123456789'')"

definition digit_val :: "char \<Rightarrow> nat" where
  "digit_val c =
     (case map_of (zip ''0123456789'' [0, 1, 2, 3, 4, 5, 6, 7, 8, 9]) c of
        Some d \<Rightarrow> d
      | None \<Rightarrow> 0)"

definition digits_val :: "string \<Rightarrow> nat" where
  "digits_val s = foldl (\<lambda>acc c. 10 * acc + digit_val c) 0 s"

text \<open>
  \<^verbatim>\<open>int(s)\<close> in base 10: white space around the literal is dropped, one sign may
  lead, and single underscores may stand between digits. Anything else raises
  \<^verbatim>\<open>ValueError\<close> (invalid literal). Integers are unbounded; the interpreter's
  configurable limit on the number of digits it converts is not modelled.
\<close>

fun int_body_ok :: "string \<Rightarrow> bool" where
  "int_body_ok [] = False"
| "int_body_ok [c] = is_digit c"
| "int_body_ok (c # d # cs) =
     (is_digit c \<and> (if d = CHR ''_'' then int_body_ok cs else int_body_ok (d # cs)))"

definition strip :: "string \<Rightarrow> string" where
  "strip s = rev (dropWhile is_space (rev (dropWhile is_space s)))"

definition py_int :: "string \<Rightarrow> py_exn + int" where
  "py_int s =
     (let t = strip s;
          negative = (t \<noteq> [] \<and> hd t = CHR ''-'');
          body = (if t \<noteq> [] \<and> (hd t = CHR ''-'' \<or> hd t = CHR ''+'') then tl t else t)
      in if int_body_ok body
         then Inr ((if negative then - 1 else 1) * int (digits_val (filter (\<lambda>c. c \<noteq> CHR ''_'') body)))
         else Inl (InvalidLiteral s))"

fun split_on :: "char \<Rightarrow> string \<Rightarrow> string list" where
  "split_on sep [] = [[]]"
| "split_on sep (c # cs) =
     (if c = sep then [] # split_on sep cs
      else (case split_on sep cs of [] \<Rightarrow> [[c]] | x # xs \<Rightarrow> (c # x) # xs))"

text \<open>
  \<^verbatim>\<open>major, minor, patch = (int(x) for x in parts)\<close>: the generator is consumed one
  item at a time, up to a fourth item, so the first item that is no integer raises
  before the number of items is found wrong.
\<close>

definition unpack3 :: "string list \<Rightarrow> py_exn + (int \<times> int \<times> int)" where
  "unpack3 xs =
     (case xs of
        [] \<Rightarrow> Inl (NotEnoughValues 0)
      | a # r1 \<Rightarrow>
          (case py_int a of
             Inl e \<Rightarrow> Inl e
           | Inr major \<Rightarrow>
               (case r1 of
                  [] \<Rightarrow> Inl (NotEnoughValues 1)
                | b # r2 \<Rightarrow>
                    (case py_int b of
                       Inl e \<Rightarrow> Inl e
                     | Inr minor \<Rightarrow>
                         (case r2 of
                            [] \<Rightarrow> Inl (NotEnoughValues 2)
                          | c # r3 \<Rightarrow>
                              (case py_int c of
                                 Inl e \<Rightarrow> Inl e
                               | Inr patch \<Rightarrow>
                                   (case r3 of
                                      [] \<Rightarrow> Inr (major, minor, patch)
                                    | d # r4 \<Rightarrow>
                                        (case py_int d of
                                           Inl e \<Rightarrow> Inl e
                                         | Inr x \<Rightarrow> Inl TooManyValues))))))))"

subsection \<open>bump\_version\<close>

definition format_version :: "int \<Rightarrow> int \<Rightarrow> int \<Rightarrow> string" where
  "format_version major minor patch = str_int major @ ''.'' @ str_int minor @ ''.'' @ str_int patch"

definition bump_version :: "string \<Rightarrow> string \<Rightarrow> py_exn + string" where
  "bump_version version bump =
     (case unpack3 (split_on (CHR ''.'') version) of
        Inl e \<Rightarrow> Inl e
      | Inr (major, minor, patch) \<Rightarrow>
          (if bump = ''major'' then Inr (format_version (major + 1) 0 0)
           else if bump = ''minor'' then Inr (format_version major (minor + 1) 0)
           else if bump = ''patch'' then Inr (format_version major minor (patch + 1))
           else Inl (ValueError (''Unknown bump type: '' @ bump))))"

subsection \<open>The pattern \<^verbatim>\<open>VERSION_RE\<close>\<close>

text \<open>
  The pattern is \<^verbatim>\<open>(?m)^version\s*=\s*"(\d+\.\d+\.\d+)"\s*$\<close>. A match at a position is
  found piece by piece. Each \<^verbatim>\<open>\s*\<close> and \<^verbatim>\<open>\d+\<close> but the last is followed by a
  character outside its class, so it takes the longest run. The last \<^verbatim>\<open>\s*\<close> is
  followed by \<^verbatim>\<open>$\<close>, which in multi-line mode holds at the end of the text and
  before a newline: the engine takes as much white space as still leaves it at such a
  place. A match gives the group and the text after the match. \<^verbatim>\<open>search\<close> tries the
  positions from left to right, those at the start of a line, and returns the text
  before the match as well.
\<close>

fun strip_prefix :: "string \<Rightarrow> string \<Rightarrow> string option" where
  "strip_prefix [] s = Some s"
| "strip_prefix (p # ps) [] = None"
| "strip_prefix (p # ps) (c # cs) = (if p = c then strip_prefix ps cs else None)"

definition digits1 :: "string \<Rightarrow> (string \<times> string) option" where
  "digits1 s =
     (if takeWhile is_digit s = [] then None
      else Some (takeWhile is_digit s, dropWhile is_digit s))"

fun trailing_space_eol :: "string \<Rightarrow> string option" where
  "trailing_space_eol [] = Some []"
| "trailing_space_eol (c # cs) =
     (if is_space c
      then (case trailing_space_eol cs of
              Some r \<Rightarrow> Some r
            | None \<Rightarrow> if c = newline then Some (c # cs) else None)
      else None)"

definition match_here :: "string \<Rightarrow> (string \<times> string) option" where
  "match_here s =
     Option.bind (strip_prefix ''version'' s) (\<lambda>s1.
     Option.bind (strip_prefix ''='' (dropWhile is_space s1)) (\<lambda>s2.
     Option.bind (strip_prefix [dquote] (dropWhile is_space s2)) (\<lambda>s3.
     Option.bind (digits1 s3) (\<lambda>(major, s4).
     Option.bind (strip_prefix ''.'' s4) (\<lambda>s5.
     Option.bind (digits1 s5) (\<lambda>(minor, s6).
     Option.bind (strip_prefix ''.'' s6) (\<lambda>s7.
     Option.bind (digits1 s7) (\<lambda>(patch, s8).
     Option.bind (strip_prefix [dquote] s8) (\<lambda>s9.
     Option.bind (trailing_space_eol s9) (\<lambda>rest.
     Some (major @ ''.'' @ minor @ ''.'' @ patch, rest)))))))))))"

fun search :: "bool \<Rightarrow> string \<Rightarrow> (string \<times> string \<times> string) option" where
  "search bol [] =
     (case (if bol then match_here [] else None) of
        Some (g, r) \<Rightarrow> Some ([], g, r)
      | None \<Rightarrow> None)"
| "search bol (c # cs) =
     (case (if bol then match_here (c # cs) else None) of
        Some (g, r) \<Rightarrow> Some ([], g, r)
      | None \<Rightarrow> map_option (\<lambda>(p, g, r). (c # p, g, r)) (search (c = newline) cs))"

definition VERSION_RE_search :: "string \<Rightarrow> (string \<times> string \<times> string) option" where
  "VERSION_RE_search text = search True text"

definition VERSION_RE_subn :: "string \<Rightarrow> string \<Rightarrow> string \<times> nat" where
  "VERSION_RE_subn repl text =
     (case VERSION_RE_search text of
        None \<Rightarrow> (text, 0)
      | Some (before, g, rest) \<Rightarrow> (before @ repl @ rest, 1))"

subsection \<open>read\_version, write\_version and main\<close>

text \<open>
  The replacement string of \<^verbatim>\<open>subn\<close> is taken as it stands: it holds no backslash,
  since it is built from a string \<^verbatim>\<open>bump_version\<close> returned.
\<close>

definition read_version :: "string \<Rightarrow> py_exn + string" where
  "read_version text =
     (case VERSION_RE_search text of
        None \<Rightarrow> Inl (ValueError ''Could not find version in pyproject.toml'')
      | Some (before, g, rest) \<Rightarrow> Inr g)"

definition version_line :: "string \<Rightarrow> string" where
  "version_line new_version = ''version = '' @ [dquote] @ new_version @ [dquote]"

definition write_version :: "path \<Rightarrow> string \<Rightarrow> world \<Rightarrow> py_exn option \<times> world" where
  "write_version p new_version w =
     (case read_text w p of
        Inl e \<Rightarrow> (Some e, w)
      | Inr text \<Rightarrow>
          (let sub = VERSION_RE_subn (version_line new_version) text
           in if snd sub \<noteq> 1
              then (Some (ValueError ''Failed to update version in pyproject.toml''), w)
              else (None, w\<lparr>files := (files w)(p \<mapsto> fst sub), log := log w @ [WriteText p]\<rparr>)))"

record script_args =
  file_arg :: path
  bump_arg :: "string option"
  current_arg :: bool

record script_result =
  outcome :: "py_exn + int"
  printed :: "string list"

text \<open>
  The parsed arguments. The parser refuses a \<^verbatim>\<open>--bump\<close> value outside the choices
  and exits with status 2 before anything is read. An exception nothing catches,
  \<^verbatim>\<open>SystemExit\<close> included, ends the run; otherwise \<^verbatim>\<open>main\<close> returns 0.
\<close>

definition bump_choices :: "string list" where
  "bump_choices = [''major'', ''minor'', ''patch'']"

definition parse_args_ok :: "script_args \<Rightarrow> bool" where
  "parse_args_ok a = (case bump_arg a of None \<Rightarrow> True | Some b \<Rightarrow> b \<in> set bump_choices)"

definition script_main :: "script_args \<Rightarrow> world \<Rightarrow> script_result \<times> world" where
  "script_main a w =
     (if \<not> parse_args_ok a
      then (\<lparr>outcome = Inl (ArgparseError (the (bump_arg a))), printed = []\<rparr>, w)
      else
        (case read_text w (file_arg a) of
           Inl e \<Rightarrow> (\<lparr>outcome = Inl e, printed = []\<rparr>, w)
         | Inr text \<Rightarrow>
             (case read_version text of
                Inl e \<Rightarrow> (\<lparr>outcome = Inl e, printed = []\<rparr>, w)
              | Inr current \<Rightarrow>
                  (if current_arg a then (\<lparr>outcome = Inr 0, printed = [current]\<rparr>, w)
                   else if bump_arg a = None \<or> bump_arg a = Some []
                   then (\<lparr>outcome = Inl (SystemExit ''--bump is required unless --current is set''),
                          printed = []\<rparr>, w)
                   else
                     (case bump_version current (the (bump_arg a)) of
                        Inl e \<Rightarrow> (\<lparr>outcome = Inl e, printed = []\<rparr>, w)
                      | Inr new_version \<Rightarrow>
                          (let written = write_version (file_arg a) new_version w
                           in case fst written of
                                Some e \<Rightarrow> (\<lparr>outcome = Inl e, printed = []\<rparr>, snd written)
                              | None \<Rightarrow>
                                  (\<lparr>outcome = Inr 0, printed = [new_version]\<rparr>, snd written)))))))"

subsection \<open>A concrete manifest\<close>

definition pyproject :: path where
  "pyproject = \<lparr>anchor = [], parts = [''pyproject.toml'']\<rparr>"

definition manifest_text :: string where
  "manifest_text =
     ''[project]'' @ [newline] @ ''name = '' @ [dquote] @ ''pdfo'' @ [dquote] @ [newline] @
     ''version = '' @ [dquote] @ ''1.2.3'' @ [dquote] @ [newline] @ [newline] @
     ''[tool]'' @ [newline]"

definition example_script_args :: script_args where
  "example_script_args = \<lparr>file_arg = pyproject, bump_arg = Some ''minor'', current_arg = False\<rparr>"

definition manifest_world :: "string \<Rightarrow> world" where
  "manifest_world text = \<lparr>files = [pyproject \<mapsto> text], log = []\<rparr>"

section \<open>Properties of pdfo.py\<close>

lemmas example_defs =
  sample_pdf_def sample_out_def notes_txt_def example_env_def example_args_def example_world_def

lemmas run_defs =
  main_def resolve_output_def path_join_def path_parent_def path_stem_def path_suffix_def
  path_name_def rfind_def Let_def lower_def lower_char_def path_exists_def has_ghostscript_def
  stat_size_def compress_with_ghostscript_def compress_with_pypdf_def stat_sizes_def
  reduction_def gs_cmd_def add_page_def add_metadata_def

subsection \<open>What each step adds to the log\<close>

lemma backends_run_append: "backends_run (xs @ ys) = backends_run xs @ backends_run ys"
  by (simp add: backends_run_def map_filter_def)

lemma has_ghostscript_log:
  "log (snd (has_ghostscript env w)) = log w @ [Subprocess [''gs'', ''--version'']]"
  by (simp add: has_ghostscript_def Let_def split: sum.splits prod.splits)

lemma compress_with_ghostscript_log:
  "log (snd (compress_with_ghostscript env i out q w)) = log w @ [Subprocess (gs_cmd i out q)]"
  by (simp add: compress_with_ghostscript_def Let_def split: sum.splits prod.splits)

lemma compress_with_pypdf_log:
  "log (snd (compress_with_pypdf env i out q w)) = log w @ [PdfReaderOpen i] \<or>
   log (snd (compress_with_pypdf env i out q w)) = log w @ [PdfReaderOpen i, OpenWb out]"
  by (simp add: compress_with_pypdf_def Let_def split: sum.splits prod.splits option.splits)

lemma backends_run_ghostscript:
  "backends_run (log (snd (compress_with_ghostscript env i out q w))) =
     backends_run (log w) @ [External_Tool]"
  by (simp add: compress_with_ghostscript_log backends_run_append)
     (simp add: backends_run_def map_filter_def gs_cmd_def)

lemma backends_run_pypdf:
  "backends_run (log (snd (compress_with_pypdf env i out q w))) =
     backends_run (log w) @ [Library_Fallback]"
  using compress_with_pypdf_log [of env i out q w]
  by (auto simp add: backends_run_append) (simp_all add: backends_run_def map_filter_def)

lemma backends_run_probe:
  "backends_run (log (snd (has_ghostscript env w))) = backends_run (log w)"
  by (simp add: has_ghostscript_log backends_run_append)
     (simp add: backends_run_def map_filter_def)

lemma ghostscript_sizes:
  "fst (compress_with_ghostscript env i out q w) = Inr (n, m) \<Longrightarrow>
   stat_size (snd (compress_with_ghostscript env i out q w)) i = Inr n \<and>
   stat_size (snd (compress_with_ghostscript env i out q w)) out = Inr m"
  by (auto simp add: compress_with_ghostscript_def stat_sizes_def Let_def
      split: sum.splits prod.splits if_splits)

lemma pypdf_sizes:
  "fst (compress_with_pypdf env i out q w) = Inr (n, m) \<Longrightarrow>
   stat_size (snd (compress_with_pypdf env i out q w)) i = Inr n \<and>
   stat_size (snd (compress_with_pypdf env i out q w)) out = Inr m"
  by (auto simp add: compress_with_pypdf_def stat_sizes_def Let_def
      split: sum.splits prod.splits if_splits option.splits)

lemma main_backends_run:
  assumes "lower (path_suffix (input_file a)) = ''.pdf''"
    and "\<not> (path_exists w (resolve_output a) \<and> \<not> force a)"
    and "stat_size (snd (has_ghostscript env w)) (input_file a) = Inr n"
  shows "backends_run (log (snd (main env a w))) =
           backends_run (log w) @
           [if fst (has_ghostscript env w) \<and> \<not> no_gs a then External_Tool else Library_Fallback]"
  using assms
  by (auto simp add: main_def Let_def backends_run_ghostscript backends_run_pypdf
      backends_run_probe split: sum.splits prod.splits)

lemma rejected_main:
  "rejected (fst (main env a w)) =
     (lower (path_suffix (input_file a)) \<noteq> ''.pdf'' \<or>
      path_exists w (resolve_output a) \<and> \<not> force a)"
  by (auto simp add: main_def Let_def rejected_def split: sum.splits prod.splits)

lemma resolve_output_quality [simp]: "resolve_output (a\<lparr>quality := q\<rparr>) = resolve_output a"
  by (simp add: resolve_output_def split: option.splits)

subsection \<open>The quality table\<close>

text \<open>
  C1, as the code has it. The table names three presets, not two: level 1 is
  \<^verbatim>\<open>printer\<close>, level 2 is \<^verbatim>\<open>ebook\<close>, levels 3 and 4 share \<^verbatim>\<open>screen\<close>. The command
  carries the preset as its fourth argument and the image resolution as its thirteenth;
  the resolution is 150 for levels 3 and 4 and 200 for levels 1 and 2.
\<close>

theorem quality_presets:
  "q \<in> {1, 2, 3, 4} \<Longrightarrow>
     preset_of q = (if q = 1 then ''printer'' else if q = 2 then ''ebook'' else ''screen'') \<and>
     resolution_flag q = ''-dColorImageResolution='' @ str_nat (if q \<ge> 3 then 150 else 200) \<and>
     gs_cmd i out q ! 3 = ''-dPDFSETTINGS=/'' @ preset_of q \<and>
     gs_cmd i out q ! 12 = resolution_flag q"
  by (auto simp add: preset_of_def quality_settings_def resolution_flag_def gs_cmd_def
      digit_char_def)

theorem quality_presets_witness:
  "(3::int) \<in> {1, 2, 3, 4} \<and> preset_of 3 = ''screen'' \<and>
   resolution_flag 3 = ''-dColorImageResolution=150'' \<and>
   gs_cmd sample_pdf sample_out 3 ! 3 = ''-dPDFSETTINGS=/screen'' \<and>
   gs_cmd sample_pdf sample_out 3 ! 12 = ''-dColorImageResolution=150''"
  using quality_presets [of 3 sample_pdf sample_out]
  by (simp add: digit_char_def)

text \<open>
  C1 as the spec states it fails: levels 2 and 3 do not share one preset.
\<close>

theorem quality_presets_counterexample:
  "preset_of 2 = ''ebook'' \<and> preset_of 3 = ''screen'' \<and> preset_of 2 \<noteq> preset_of 3"
  by (simp add: preset_of_def quality_settings_def)

text \<open>
  C2, as the code has it. A quality level outside 1 to 4 is not rejected (whether a run is
  rejected does not depend on the level) and gets the preset of level 2. Its image
  resolution is that of level 2 only for levels below 1, where the whole backend call
  is the one of level 2; from level 5 on the resolution is that of levels 3 and 4, so
  the command is the one of level 2 with that one argument changed.
\<close>

theorem quality_out_of_range:
  "q \<notin> {1, 2, 3, 4} \<Longrightarrow>
     rejected (fst (main env (a\<lparr>quality := q\<rparr>) w)) =
       rejected (fst (main env (a\<lparr>quality := 2\<rparr>) w)) \<and>
     preset_of q = preset_of 2 \<and>
     (q \<le> 0 \<longrightarrow>
        resolution_flag q = resolution_flag 2 \<and>
        compress_with_ghostscript env i out q w = compress_with_ghostscript env i out 2 w) \<and>
     (5 \<le> q \<longrightarrow>
        resolution_flag q = resolution_flag 3 \<and>
        gs_cmd i out q = (gs_cmd i out 2)[12 := resolution_flag 3])"
  by (auto simp add: rejected_main preset_of_def quality_settings_def resolution_flag_def
      compress_with_ghostscript_def gs_cmd_def)

theorem quality_out_of_range_witness:
  "(7::int) \<notin> {1, 2, 3, 4} \<and> (0::int) \<notin> {1, 2, 3, 4} \<and>
   \<not> rejected (fst (main (example_env True ''12'') (example_args\<lparr>quality := 7\<rparr>)
                   (example_world ''1234''))) \<and>
   preset_of 7 = ''ebook'' \<and> resolution_flag 7 = ''-dColorImageResolution=150'' \<and>
   preset_of 0 = ''ebook'' \<and> resolution_flag 0 = ''-dColorImageResolution=200'' \<and>
   compress_with_ghostscript (example_env True ''12'') sample_pdf sample_out 0
     (example_world ''1234'') =
   compress_with_ghostscript (example_env True ''12'') sample_pdf sample_out 2
     (example_world ''1234'')"
  using
    quality_out_of_range [of 7 "example_env True ''12''" example_args "example_world ''1234''"
      sample_pdf sample_out]
    quality_out_of_range [of 0 "example_env True ''12''" example_args "example_world ''1234''"
      sample_pdf sample_out]
  by (simp add: rejected_main)
     (simp add: example_defs run_defs resolution_flag_def preset_of_def quality_settings_def)

text \<open>
  C2 as the spec states it fails at level 5: the resolution argument, and so the
  command, differs from the one of level 2.
\<close>

theorem quality_out_of_range_counterexample:
  "(5::int) \<notin> {1, 2, 3, 4} \<and> resolution_flag 5 \<noteq> resolution_flag 2 \<and>
   gs_cmd sample_pdf sample_out 5 \<noteq> gs_cmd sample_pdf sample_out 2"
  by (simp add: resolution_flag_def gs_cmd_def)

subsection \<open>An input of zero bytes\<close>

text \<open>
  C3, as the code has it. A request that passes both checks and whose input has zero
  bytes never succeeds: the program exits with code 1 and one caught error. There is
  no error of its own for the empty input: a backend has run by then, and the error
  is either the one the backend raised or the \<^verbatim>\<open>ZeroDivisionError\<close> of the percentage.
\<close>

theorem empty_input:
  assumes "lower (path_suffix (input_file a)) = ''.pdf''"
    and "\<not> (path_exists w (resolve_output a) \<and> \<not> force a)"
    and "stat_size (snd (has_ghostscript env w)) (input_file a) = Inr 0"
  shows "exit_code (fst (main env a w)) = 1 \<and>
         (\<exists>e. stderr (fst (main env a w)) = [Error_caught e]) \<and>
         backends_run (log (snd (main env a w))) \<noteq> backends_run (log w) \<and>
         (stderr (fst (main env a w)) = [Error_caught ZeroDivisionError] \<or>
          (\<exists>e. fst (if fst (has_ghostscript env w) \<and> \<not> no_gs a
                     then compress_with_ghostscript env (input_file a) (resolve_output a)
                            (quality a) (snd (has_ghostscript env w))
                     else compress_with_pypdf env (input_file a) (resolve_output a)
                            (quality a) (snd (has_ghostscript env w))) = Inl e \<and>
                stderr (fst (main env a w)) = [Error_caught e]))"
proof -
  have ran: "backends_run (log (snd (main env a w))) \<noteq> backends_run (log w)"
    using main_backends_run [OF assms] by simp
  have failed: "exit_code (fst (main env a w)) = 1 \<and>
         (\<exists>e. stderr (fst (main env a w)) = [Error_caught e]) \<and>
         (stderr (fst (main env a w)) = [Error_caught ZeroDivisionError] \<or>
          (\<exists>e. fst (if fst (has_ghostscript env w) \<and> \<not> no_gs a
                     then compress_with_ghostscript env (input_file a) (resolve_output a)
                            (quality a) (snd (has_ghostscript env w))
                     else compress_with_pypdf env (input_file a) (resolve_output a)
                            (quality a) (snd (has_ghostscript env w))) = Inl e \<and>
                stderr (fst (main env a w)) = [Error_caught e]))"
    using assms
    by (auto simp add: main_def Let_def reduction_def split: sum.splits prod.splits)
  from ran failed show ?thesis by blast
qed

theorem empty_input_witness:
  "lower (path_suffix (input_file example_args)) = ''.pdf'' \<and>
   stat_size (snd (has_ghostscript (example_env True ''%PDF'') (example_world [])))
     (input_file example_args) = Inr 0 \<and>
   exit_code (fst (main (example_env True ''%PDF'') example_args (example_world []))) = 1 \<and>
   stderr (fst (main (example_env True ''%PDF'') example_args (example_world []))) =
     [Error_caught ZeroDivisionError] \<and>
   backends_run (log (snd (main (example_env True ''%PDF'') example_args (example_world [])))) =
     [External_Tool]"
proof -
  have h1: "lower (path_suffix (input_file example_args)) = ''.pdf''"
    by (simp add: example_defs run_defs)
  have h2: "\<not> (path_exists (example_world []) (resolve_output example_args) \<and>
               \<not> force example_args)"
    by (simp add: example_defs run_defs)
  have h3: "stat_size (snd (has_ghostscript (example_env True ''%PDF'') (example_world [])))
              (input_file example_args) = Inr 0"
    by (simp add: example_defs run_defs)
  show ?thesis
    using empty_input [OF h1 h2 h3] h1 h3
    by (simp add: example_defs run_defs backends_run_def map_filter_def)
qed

text \<open>
  C3 as the spec states it fails: with the external tool installed and an input of
  zero bytes, the tool is run, writes its output, and the program then reports the
  division by zero itself.
\<close>

theorem empty_input_counterexample:
  "stat_size (example_world []) (input_file example_args) = Inr 0 \<and>
   main (example_env True ''%PDF'') example_args (example_world []) =
     (\<lparr>exit_code = 1,
       stdout = [Compressing ''sample.PDF'', Method_Ghostscript 2, Before 0],
       stderr = [Error_caught ZeroDivisionError]\<rparr>,
      \<lparr>files = [sample_pdf \<mapsto> [], sample_out \<mapsto> ''%PDF''],
       log = [Subprocess [''gs'', ''--version''],
              Subprocess (gs_cmd sample_pdf sample_out 2)]\<rparr>)"
  by (simp add: example_defs run_defs)

subsection \<open>The reported percentage\<close>

text \<open>
  C4. A run that exits with code 0 printed the percentage
  \<open>(input_size - output_size) / input_size * 100\<close>, where \<open>input_size\<close> is the size of
  the input file when the program read it (it is not zero) and \<open>output_size\<close> is the
  size of the output file the backend left. Nothing bounds the output by the input:
  the witness has a run that reports -100 and one that reports 0.
\<close>

theorem reduction_reported:
  assumes "exit_code (fst (main env a w)) = 0"
  shows "\<exists>input_size output_size.
           stat_size (snd (has_ghostscript env w)) (input_file a) = Inr input_size \<and>
           stat_size (snd (main env a w)) (resolve_output a) = Inr output_size \<and>
           input_size \<noteq> 0 \<and>
           stdout (fst (main env a w)) =
             [Compressing (path_name (input_file a)),
              if fst (has_ghostscript env w) \<and> \<not> no_gs a
              then Method_Ghostscript (quality a) else Method_pypdf,
              Before input_size, Success, After output_size,
              Saved (real_of_int (int input_size - int output_size) / real input_size * 100),
              File_line (resolve_output a)]"
  using assms
  by (auto simp add: main_def Let_def reduction_def ghostscript_sizes pypdf_sizes
      split: sum.splits prod.splits if_splits)

theorem reduction_reported_witness:
  "exit_code (fst (main (example_env True ''12345678'') example_args (example_world ''1234''))) = 0 \<and>
   stdout (fst (main (example_env True ''12345678'') example_args (example_world ''1234''))) =
     [Compressing ''sample.PDF'', Method_Ghostscript 2, Before 4, Success, After 8,
      Saved (- 100), File_line sample_out] \<and>
   exit_code (fst (main (example_env False []) example_args (example_world ''1234''))) = 0 \<and>
   stdout (fst (main (example_env False []) example_args (example_world ''1234''))) =
     [Compressing ''sample.PDF'', Method_pypdf, Before 4, Success, After 4, Saved 0,
      File_line sample_out]"
proof -
  have h1: "exit_code (fst (main (example_env True ''12345678'') example_args
                              (example_world ''1234''))) = 0"
    by (simp add: example_defs run_defs)
  have h2: "exit_code (fst (main (example_env False []) example_args
                              (example_world ''1234''))) = 0"
    by (simp add: example_defs run_defs)
  show ?thesis
    using reduction_reported [OF h1] reduction_reported [OF h2] h1 h2
    by (simp add: example_defs run_defs)
qed

subsection \<open>The overwrite guard\<close>

text \<open>
  C5, as the code has it. When the resolved output path exists and the force flag is
  not set, the program exits with code 1 and leaves its surroundings as they were: the
  files are unchanged and the log has no new entry, so no backend ran and nothing was
  written. The error printed is the one of the overwrite guard for every request whose
  input passed the extension check, which comes first.
\<close>

theorem overwrite_guard:
  assumes "path_exists w (resolve_output a)" and "\<not> force a"
  shows "exit_code (fst (main env a w)) = 1 \<and>
         stdout (fst (main env a w)) = [] \<and>
         snd (main env a w) = w \<and>
         (lower (path_suffix (input_file a)) = ''.pdf'' \<longrightarrow>
            stderr (fst (main env a w)) = [Output_exists (resolve_output a)])"
  using assms by (simp add: main_def Let_def)

theorem overwrite_guard_witness:
  "path_exists \<lparr>files = [sample_pdf \<mapsto> ''1234'', sample_out \<mapsto> ''old''], log = []\<rparr>
     (resolve_output example_args) \<and>
   \<not> force example_args \<and>
   main (example_env True ''new'') example_args
     \<lparr>files = [sample_pdf \<mapsto> ''1234'', sample_out \<mapsto> ''old''], log = []\<rparr> =
     (\<lparr>exit_code = 1, stdout = [], stderr = [Output_exists sample_out]\<rparr>,
      \<lparr>files = [sample_pdf \<mapsto> ''1234'', sample_out \<mapsto> ''old''], log = []\<rparr>)"
proof -
  let ?w = "\<lparr>files = [sample_pdf \<mapsto> ''1234'', sample_out \<mapsto> ''old''], log = []\<rparr>"
  have h1: "path_exists ?w (resolve_output example_args)"
    by (simp add: example_defs run_defs)
  have h2: "\<not> force example_args"
    by (simp add: example_defs)
  have h3: "lower (path_suffix (input_file example_args)) = ''.pdf''"
    by (simp add: example_defs run_defs)
  have h4: "resolve_output example_args = sample_out"
    by (simp add: example_defs run_defs)
  show ?thesis
    using overwrite_guard [OF h1 h2, of "example_env True ''new''"] h1 h2 h3 h4
    by (cases "main (example_env True ''new'') example_args ?w";
        cases "fst (main (example_env True ''new'') example_args ?w)") simp
qed

text \<open>
  C5 as the spec states it fails: for an input that is no PDF, with an existing output
  and no force flag, the error is the one of the extension check, not the one of the
  overwrite guard.
\<close>

theorem overwrite_guard_counterexample:
  "path_exists \<lparr>files = [notes_txt \<mapsto> ''hello'', sample_out \<mapsto> ''old''], log = []\<rparr>
     (resolve_output (example_args\<lparr>input_file := notes_txt, output_arg := Some sample_out\<rparr>)) \<and>
   \<not> force (example_args\<lparr>input_file := notes_txt, output_arg := Some sample_out\<rparr>) \<and>
   stderr (fst (main (example_env True ''new'')
       (example_args\<lparr>input_file := notes_txt, output_arg := Some sample_out\<rparr>)
       \<lparr>files = [notes_txt \<mapsto> ''hello'', sample_out \<mapsto> ''old''], log = []\<rparr>)) =
     [Input_must_be_PDF] \<and>
   stderr (fst (main (example_env True ''new'')
       (example_args\<lparr>input_file := notes_txt, output_arg := Some sample_out\<rparr>)
       \<lparr>files = [notes_txt \<mapsto> ''hello'', sample_out \<mapsto> ''old''], log = []\<rparr>)) \<noteq>
     [Output_exists
        (resolve_output (example_args\<lparr>input_file := notes_txt, output_arg := Some sample_out\<rparr>))]"
  by (simp add: example_defs run_defs)

subsection \<open>Backend selection\<close>

text \<open>
  C6. For a request that passes both checks and whose input can be read, the backends
  that ran are exactly one: the external tool when the probe found it and
  \<^verbatim>\<open>--no-gs\<close> is not set, the library fallback otherwise. The choice depends on
  nothing but those two booleans, and the method line printed names the same backend.
\<close>

theorem backend_selection:
  assumes "lower (path_suffix (input_file a)) = ''.pdf''"
    and "\<not> (path_exists w (resolve_output a) \<and> \<not> force a)"
    and "stat_size (snd (has_ghostscript env w)) (input_file a) = Inr n"
  shows "backends_run (log (snd (main env a w))) =
           backends_run (log w) @
           [if fst (has_ghostscript env w) \<and> \<not> no_gs a then External_Tool else Library_Fallback] \<and>
         stdout (fst (main env a w)) ! 1 =
           (if fst (has_ghostscript env w) \<and> \<not> no_gs a
            then Method_Ghostscript (quality a) else Method_pypdf)"
proof -
  have "stdout (fst (main env a w)) ! 1 =
           (if fst (has_ghostscript env w) \<and> \<not> no_gs a
            then Method_Ghostscript (quality a) else Method_pypdf)"
    using assms
    by (auto simp add: main_def Let_def split: sum.splits prod.splits)
  with main_backends_run [OF assms] show ?thesis by simp
qed

theorem backend_selection_witness:
  "backends_run (log (snd (main (example_env True ''12'') example_args (example_world ''1234'')))) =
     [External_Tool] \<and>
   backends_run (log (snd (main (example_env True ''12'') (example_args\<lparr>no_gs := True\<rparr>)
     (example_world ''1234'')))) = [Library_Fallback] \<and>
   backends_run (log (snd (main (example_env False ''12'') example_args (example_world ''1234'')))) =
     [Library_Fallback]"
proof -
  have h1: "lower (path_suffix (input_file a)) = ''.pdf''"
    if "input_file a = sample_pdf" for a :: cli_args
    using that by (simp add: example_defs run_defs)
  have h2: "\<not> (path_exists (example_world ''1234'') (resolve_output a) \<and> \<not> force a)"
    if "input_file a = sample_pdf" "output_arg a = None" for a :: cli_args
    using that by (simp add: example_defs run_defs)
  have h3: "stat_size (snd (has_ghostscript (example_env g ''12'') (example_world ''1234'')))
              (input_file a) = Inr 4"
    if "input_file a = sample_pdf" for a :: cli_args and g
    using that by (simp add: example_defs run_defs)
  have a1: "input_file example_args = sample_pdf" "output_arg example_args = None"
    by (simp_all add: example_defs)
  have a2: "input_file (example_args\<lparr>no_gs := True\<rparr>) = sample_pdf"
    "output_arg (example_args\<lparr>no_gs := True\<rparr>) = None"
    by (simp_all add: example_defs)
  show ?thesis
    using backend_selection [OF h1 [OF a1(1)] h2 [OF a1] h3 [OF a1(1), of True]]
      backend_selection [OF h1 [OF a2(1)] h2 [OF a2] h3 [OF a2(1), of True]]
      backend_selection [OF h1 [OF a1(1)] h2 [OF a1] h3 [OF a1(1), of False]]
    by (simp add: example_defs has_ghostscript_def backends_run_def map_filter_def)
qed

subsection \<open>The extension check\<close>

lemma lower_char_p: "lower_char c = CHR ''p'' \<longleftrightarrow> c = CHR ''p'' \<or> c = CHR ''P''"
  by (auto simp add: lower_char_def)

lemma lower_char_d: "lower_char c = CHR ''d'' \<longleftrightarrow> c = CHR ''d'' \<or> c = CHR ''D''"
  by (auto simp add: lower_char_def)

lemma lower_char_f: "lower_char c = CHR ''f'' \<longleftrightarrow> c = CHR ''f'' \<or> c = CHR ''F''"
  by (auto simp add: lower_char_def)

lemma lower_char_dot: "lower_char c = CHR ''.'' \<longleftrightarrow> c = CHR ''.''"
  by (auto simp add: lower_char_def)

lemma lower_pdf_iff:
  "lower s = ''.pdf'' \<longleftrightarrow>
     (\<exists>p d f. s = [CHR ''.'', p, d, f] \<and> p \<in> {CHR ''p'', CHR ''P''} \<and>
        d \<in> {CHR ''d'', CHR ''D''} \<and> f \<in> {CHR ''f'', CHR ''F''})"
  unfolding lower_def
  by (auto simp add: map_eq_Cons_conv lower_char_p lower_char_d lower_char_f lower_char_dot)

text \<open>
  C7. The extension passes the check exactly when it is a dot followed by the letters
  p, d, f, each in either case. A path that passes is not refused as a non-PDF input;
  any other path ends the run with exit code 1 and the error of the check, with the
  surroundings untouched: no backend has run.
\<close>

theorem input_validation:
  "(lower (path_suffix (input_file a)) = ''.pdf'' \<longleftrightarrow>
      (\<exists>p d f. path_suffix (input_file a) = [CHR ''.'', p, d, f] \<and>
         p \<in> {CHR ''p'', CHR ''P''} \<and> d \<in> {CHR ''d'', CHR ''D''} \<and>
         f \<in> {CHR ''f'', CHR ''F''})) \<and>
   (lower (path_suffix (input_file a)) = ''.pdf'' \<longrightarrow>
      stderr (fst (main env a w)) \<noteq> [Input_must_be_PDF]) \<and>
   (lower (path_suffix (input_file a)) \<noteq> ''.pdf'' \<longrightarrow>
      main env a w = (\<lparr>exit_code = 1, stdout = [], stderr = [Input_must_be_PDF]\<rparr>, w))"
  by (auto simp add: lower_pdf_iff main_def Let_def split: sum.splits prod.splits)

theorem input_validation_witness:
  "path_suffix sample_pdf = ''.PDF'' \<and>
   stderr (fst (main (example_env True ''12'') example_args (example_world ''1234''))) \<noteq>
     [Input_must_be_PDF] \<and>
   path_suffix notes_txt = ''.txt'' \<and>
   main (example_env True ''12'') (example_args\<lparr>input_file := notes_txt\<rparr>)
       \<lparr>files = [notes_txt \<mapsto> ''hello''], log = []\<rparr> =
     (\<lparr>exit_code = 1, stdout = [], stderr = [Input_must_be_PDF]\<rparr>,
      \<lparr>files = [notes_txt \<mapsto> ''hello''], log = []\<rparr>)"
proof -
  have s1: "path_suffix sample_pdf = ''.PDF''" and s2: "path_suffix notes_txt = ''.txt''"
    by (simp_all add: example_defs run_defs)
  have i1: "input_file example_args = sample_pdf"
    and i2: "input_file (example_args\<lparr>input_file := notes_txt\<rparr>) = notes_txt"
    by (simp_all add: example_defs)
  have l1: "lower ''.PDF'' = ''.pdf''" and l2: "lower ''.txt'' \<noteq> ''.pdf''"
    by (simp_all add: lower_def lower_char_def)
  show ?thesis
    using input_validation [of example_args "example_env True ''12''" "example_world ''1234''"]
      input_validation [of "example_args\<lparr>input_file := notes_txt\<rparr>" "example_env True ''12''"
        "\<lparr>files = [notes_txt \<mapsto> ''hello''], log = []\<rparr>"]
    by (simp add: s1 s2 i1 i2 l1 l2)
qed

subsection \<open>The fallback and the quality level\<close>

text \<open>
  C9. The library fallback never reads its quality argument: two calls that differ in
  nothing else return the same sizes and leave the same files and log. The same holds
  for the whole program whenever it selects the fallback.
\<close>

theorem fallback_ignores_quality:
  "compress_with_pypdf env i out q1 w = compress_with_pypdf env i out q2 w \<and>
   (\<not> (fst (has_ghostscript env w) \<and> \<not> no_gs a) \<longrightarrow>
      main env (a\<lparr>quality := q1\<rparr>) w = main env (a\<lparr>quality := q2\<rparr>) w)"
proof -
  have backend: "compress_with_pypdf env' i' out' q1 w' = compress_with_pypdf env' i' out' q2 w'"
    for env' :: "'a env" and i' out' w'
    by (simp add: compress_with_pypdf_def)
  then have "main env (a\<lparr>quality := q1\<rparr>) w = main env (a\<lparr>quality := q2\<rparr>) w"
    if "\<not> (fst (has_ghostscript env w) \<and> \<not> no_gs a)"
    using that
    by (cases "fst (has_ghostscript env w)"; cases "no_gs a") (simp_all add: main_def Let_def cong: sum.case_cong)
  with backend show ?thesis by blast
qed

theorem fallback_ignores_quality_witness:
  "\<not> (fst (has_ghostscript (example_env False []) (example_world ''1234'')) \<and>
       \<not> no_gs example_args) \<and>
   compress_with_pypdf (example_env False []) sample_pdf sample_out 1 (example_world ''1234'') =
   compress_with_pypdf (example_env False []) sample_pdf sample_out 4 (example_world ''1234'') \<and>
   main (example_env False []) (example_args\<lparr>quality := 1\<rparr>) (example_world ''1234'') =
   main (example_env False []) (example_args\<lparr>quality := 4\<rparr>) (example_world ''1234'') \<and>
   files (snd (main (example_env False []) (example_args\<lparr>quality := 4\<rparr>) (example_world ''1234'')))
     sample_out = Some ''1234''"
proof -
  have h: "\<not> (fst (has_ghostscript (example_env False []) (example_world ''1234'')) \<and>
              \<not> no_gs example_args)"
    by (simp add: example_defs has_ghostscript_def)
  have f: "files (snd (main (example_env False []) (example_args\<lparr>quality := 4\<rparr>)
             (example_world ''1234''))) sample_out = Some ''1234''"
    by (simp add: example_defs run_defs)
  show ?thesis
    using fallback_ignores_quality [of "example_env False []" sample_pdf sample_out 1
        "example_world ''1234''" 4 example_args] h f
    by simp
qed

section \<open>Properties of scripts/bump\_version.py\<close>

subsection \<open>Parsing a version string\<close>













subsection \<open>What a match looks like\<close>







subsection \<open>Printing a number and reading it back\<close>





lemma str_int_nat: "str_int (int n) = str_nat n"
  by (simp add: str_int_def)

lemma str_int_Suc: "str_int (int n + 1) = str_nat (Suc n)"
  using str_int_nat [of "Suc n"] by (simp add: add.commute)




subsection \<open>The script as a whole\<close>

lemma read_version_search:
  "read_version text = (case VERSION_RE_search text of
      None \<Rightarrow> Inl (ValueError ''Could not find version in pyproject.toml'')
    | Some (before, g, rest) \<Rightarrow> Inr g)"
  by (simp add: read_version_def)




lemmas regex_defs = VERSION_RE_search_def match_here_def digits1_def is_digit_def is_space_def
  dquote_def newline_def

lemma manifest_search:
  "VERSION_RE_search manifest_text =
     Some (''[project]'' @ [newline] @ ''name = '' @ [dquote] @ ''pdfo'' @ [dquote] @ [newline],
           ''1.2.3'', [newline] @ ''[tool]'' @ [newline])"
  by (simp add: manifest_text_def regex_defs)


lemma bump_123: "bump_version ''1.2.3'' ''minor'' = Inr ''1.3.0''"
  by (simp add: bump_version_def unpack3_def py_int_def strip_def is_space_def is_digit_def
      digits_val_def digit_val_def format_version_def str_int_def digit_char_def Let_def)




text \<open>
  C10. With \<^verbatim>\<open>--current\<close> the script leaves its surroundings as they were, whatever
  else it is given and however it ends: no file changes and nothing is written. When
  the manifest has a version line, it prints the version of that line and returns 0,
  also when a bump type is given along with the flag.
\<close>

theorem current_flag_read_only:
  "(current_arg a \<longrightarrow> snd (script_main a w) = w) \<and>
   (current_arg a \<and> parse_args_ok a \<and> files w (file_arg a) = Some manifest \<and>
    VERSION_RE_search manifest = Some (before, current, rest) \<longrightarrow>
      script_main a w = (\<lparr>outcome = Inr 0, printed = [current]\<rparr>, w))"
  by (auto simp add: script_main_def read_text_def read_version_def
      split: sum.splits option.splits)

theorem current_flag_read_only_witness:
  "current_arg (example_script_args\<lparr>current_arg := True\<rparr>) \<and>
   bump_arg (example_script_args\<lparr>current_arg := True\<rparr>) = Some ''minor'' \<and>
   script_main (example_script_args\<lparr>current_arg := True\<rparr>) (manifest_world manifest_text) =
     (\<lparr>outcome = Inr 0, printed = [''1.2.3'']\<rparr>, manifest_world manifest_text)"
proof -
  have args: "current_arg (example_script_args\<lparr>current_arg := True\<rparr>)"
    "bump_arg (example_script_args\<lparr>current_arg := True\<rparr>) = Some ''minor''"
    "parse_args_ok (example_script_args\<lparr>current_arg := True\<rparr>)"
    "file_arg (example_script_args\<lparr>current_arg := True\<rparr>) = pyproject"
    by (simp_all add: example_script_args_def bump_choices_def parse_args_ok_def)
  have files: "files (manifest_world manifest_text) pyproject = Some manifest_text"
    by (simp add: manifest_world_def)
  from current_flag_read_only [where a = "example_script_args\<lparr>current_arg := True\<rparr>"
      and w = "manifest_world manifest_text" and manifest = manifest_text
      and before = "''[project]'' @ [newline] @ ''name = '' @ [dquote] @ ''pdfo'' @ [dquote] @ [newline]"
      and current = "''1.2.3''" and rest = "[newline] @ ''[tool]'' @ [newline]"]
    args files manifest_search
  show ?thesis by simp
qed

end
